theory Spec2Isabelle
  imports Main "HOL-Library.Sublist" "HOL-Library.AList"
begin

section \<open>Python strings\<close>

text \<open>
  A Python \<open>str\<close> is a sequence of code points. The model reads a HOL \<open>char\<close> as the
  code point of the same number, so a \<open>string\<close> is a Python string over the code points
  0 to 255; \<open>length\<close> is Python's \<open>len\<close>.
\<close>

definition startswith :: "string \<Rightarrow> string \<Rightarrow> bool" where
  \<comment> \<open>\<open>s.startswith(p)\<close>\<close>
  "startswith s p = prefix p s"

text \<open>
  \<open>text.replace(old, new)\<close> without a count: every non-overlapping occurrence of \<open>old\<close>,
  found from left to right, is replaced. With an empty \<open>old\<close> Python puts \<open>new\<close> before
  every character and at the end.
\<close>

function replace :: "string \<Rightarrow> string \<Rightarrow> string \<Rightarrow> string" where
  "replace [] old new = (if old = [] then new else [])"
| "replace (c # cs) old new =
     (if old = [] then new @ c # replace cs old new
      else if prefix old (c # cs) then new @ replace (drop (length old) (c # cs)) old new
      else c # replace cs old new)"
  by pat_completeness auto
termination
  by (relation "measure (\<lambda>(s, old, new). length s)") auto

definition isspace :: "char \<Rightarrow> bool" where
  \<comment> \<open>\<open>str.isspace\<close>, which is also the class \<open>\s\<close> of \<open>re\<close>, on the code points below 256\<close>
  "isspace c = (of_char c \<in> {9, 10, 11, 12, 13, 28, 29, 30, 31, 32, 133, 160 :: nat})"

definition strip_chars :: "(char \<Rightarrow> bool) \<Rightarrow> string \<Rightarrow> string" where
  \<comment> \<open>removes the leading and the trailing characters that satisfy \<open>P\<close>\<close>
  "strip_chars P s = rev (dropWhile P (rev (dropWhile P s)))"

definition strip :: "string \<Rightarrow> string" where
  \<comment> \<open>\<open>s.strip()\<close>\<close>
  "strip s = strip_chars isspace s"

definition strip_of :: "string \<Rightarrow> string \<Rightarrow> string" where
  \<comment> \<open>\<open>s.strip(chars)\<close>\<close>
  "strip_of s chars = strip_chars (\<lambda>c. c \<in> set chars) s"

section \<open>Percent normalisation\<close>

text \<open>
  \<open>PERCENT = re.compile(r'(?<!%)(%)(?!%)')\<close> matches a percent sign whose neighbours in
  the subject are not percent signs. \<open>PERCENT.sub(r'%%', s)\<close> scans \<open>s\<close> from left to
  right; both lookarounds read the subject, never the output. The flag of \<open>percent_sub\<close>
  says that the character before the current one is a percent sign.
\<close>

fun percent_sub :: "bool \<Rightarrow> string \<Rightarrow> string" where
  "percent_sub prev [] = []"
| "percent_sub prev (c # cs) =
     (if c = CHR ''%'' \<and> \<not> prev \<and> (case cs of [] \<Rightarrow> True | d # _ \<Rightarrow> d \<noteq> CHR ''%'')
      then ''%%'' @ percent_sub True cs
      else c # percent_sub (c = CHR ''%'') cs)"

definition PERCENT_sub :: "string \<Rightarrow> string" where
  "PERCENT_sub s = percent_sub False s"

text \<open>
  The words of the specification: a percent sign at index \<open>i\<close> is isolated when neither
  neighbour is a percent sign.
\<close>

definition isolated :: "string \<Rightarrow> nat \<Rightarrow> bool" where
  "isolated s i =
     (s ! i = CHR ''%'' \<and> (0 < i \<longrightarrow> s ! (i - 1) \<noteq> CHR ''%'')
      \<and> (Suc i < length s \<longrightarrow> s ! Suc i \<noteq> CHR ''%''))"

section \<open>Translation entries\<close>

text \<open>
  \<open>TranslationMatch\<close>: the \<open>re.Match\<close> object it also stores is never read after
  construction, so the record keeps the four strings. \<open>TranslationMatch\<close> below is the
  constructor together with \<open>__post_init__\<close>.
\<close>

record translation_match =
  full :: string
  head :: string
  src :: string
  dst :: string

definition TranslationMatch :: "string \<Rightarrow> string \<Rightarrow> string \<Rightarrow> string \<Rightarrow> translation_match" where
  "TranslationMatch f h s d = \<lparr>full = f, head = h, src = s, dst = PERCENT_sub d\<rparr>"

section \<open>Regular expressions\<close>

text \<open>
  The fragment of Python's \<open>re\<close> that the module's patterns use: single characters and
  character classes, each taken once or under a quantifier, groups, a back-reference and
  the two anchors. The matcher backtracks in \<open>re\<close>'s order: a greedy quantifier first
  tries one more repetition, a lazy one first tries to go on.
\<close>

definition dq :: char where
  \<comment> \<open>the double quote\<close>
  "dq = CHR 0x22"

definition nl :: char where
  \<comment> \<open>the newline character\<close>
  "nl = CHR 0x0A"

definition bs :: char where
  \<comment> \<open>the backslash\<close>
  "bs = CHR 0x5C"

definition isalnum :: "char \<Rightarrow> bool" where
  \<comment> \<open>\<open>str.isalnum\<close> on the code points below 256\<close>
  "isalnum c =
     (let n = (of_char c :: nat) in
      (48 \<le> n \<and> n \<le> 57) \<or> (65 \<le> n \<and> n \<le> 90) \<or> (97 \<le> n \<and> n \<le> 122)
      \<or> n \<in> {170, 178, 179, 181, 185, 186, 188, 189, 190}
      \<or> (192 \<le> n \<and> n \<le> 214) \<or> (216 \<le> n \<and> n \<le> 246) \<or> (248 \<le> n \<and> n \<le> 255))"

datatype cls =
    Dot  \<comment> \<open>\<open>.\<close>: any character but the newline\<close>
  | Space  \<comment> \<open>\<open>\s\<close>\<close>
  | Word  \<comment> \<open>\<open>\w\<close> and \<open>[\w_]\<close>\<close>
  | Chr char  \<comment> \<open>a literal character\<close>

fun in_cls :: "cls \<Rightarrow> char \<Rightarrow> bool" where
  "in_cls Dot x = (x \<noteq> nl)"
| "in_cls Space x = isspace x"
| "in_cls Word x = (isalnum x \<or> x = CHR ''_'')"
| "in_cls (Chr c) x = (x = c)"

datatype tok =
    One cls
  | Star cls  \<comment> \<open>\<open>c*\<close>\<close>
  | Plus cls  \<comment> \<open>\<open>c+\<close>\<close>
  | StarLazy cls  \<comment> \<open>\<open>c*?\<close>\<close>
  | PlusLazy cls  \<comment> \<open>\<open>c+?\<close>\<close>
  | Open string  \<comment> \<open>the opening parenthesis of the group of that name\<close>
  | Close string
  | Backref string  \<comment> \<open>\<open>(?P=name)\<close>\<close>
  | Bos  \<comment> \<open>\<open>^\<close>\<close>
  | Eos  \<comment> \<open>\<open>$\<close>: the end of the subject, or just before a final newline\<close>

definition lit :: "string \<Rightarrow> tok list" where
  "lit s = map (\<lambda>c. One (Chr c)) s"

type_synonym groups = "(string \<times> nat \<times> nat) list"

text \<open>
  \<open>match_here subj ts pos rest os gs\<close> matches the tokens \<open>ts\<close> at position \<open>pos\<close> of
  the subject \<open>subj\<close>, of which \<open>rest\<close> is what follows \<open>pos\<close>; \<open>os\<close> holds the start of
  every group opened so far and \<open>gs\<close> the span of every group closed so far. The result
  is the end of the match and the groups.
\<close>

function match_here ::
  "string \<Rightarrow> tok list \<Rightarrow> nat \<Rightarrow> string \<Rightarrow> (string \<times> nat) list \<Rightarrow> groups \<Rightarrow> (nat \<times> groups) option"
where
  "match_here subj [] pos rest os gs = Some (pos, gs)"
| "match_here subj (One c # ts) pos rest os gs =
     (case rest of
        [] \<Rightarrow> None
      | x # xs \<Rightarrow> if in_cls c x then match_here subj ts (Suc pos) xs os gs else None)"
| "match_here subj (Star c # ts) pos rest os gs =
     (case rest of
        [] \<Rightarrow> match_here subj ts pos rest os gs
      | x # xs \<Rightarrow>
          if in_cls c x then
            (case match_here subj (Star c # ts) (Suc pos) xs os gs of
               Some r \<Rightarrow> Some r
             | None \<Rightarrow> match_here subj ts pos rest os gs)
          else match_here subj ts pos rest os gs)"
| "match_here subj (Plus c # ts) pos rest os gs =
     (case rest of
        [] \<Rightarrow> None
      | x # xs \<Rightarrow>
          if in_cls c x then match_here subj (Star c # ts) (Suc pos) xs os gs else None)"
| "match_here subj (StarLazy c # ts) pos rest os gs =
     (case match_here subj ts pos rest os gs of
        Some r \<Rightarrow> Some r
      | None \<Rightarrow>
          (case rest of
             [] \<Rightarrow> None
           | x # xs \<Rightarrow>
               if in_cls c x then match_here subj (StarLazy c # ts) (Suc pos) xs os gs
               else None))"
| "match_here subj (PlusLazy c # ts) pos rest os gs =
     (case rest of
        [] \<Rightarrow> None
      | x # xs \<Rightarrow>
          if in_cls c x then match_here subj (StarLazy c # ts) (Suc pos) xs os gs else None)"
| "match_here subj (Open n # ts) pos rest os gs = match_here subj ts pos rest ((n, pos) # os) gs"
| "match_here subj (Close n # ts) pos rest os gs =
     (case map_of os n of
        None \<Rightarrow> None
      | Some s \<Rightarrow> match_here subj ts pos rest os ((n, s, pos) # gs))"
| "match_here subj (Backref n # ts) pos rest os gs =
     (case map_of gs n of
        None \<Rightarrow> None
      | Some (s, e) \<Rightarrow>
          (let g = take (e - s) (drop s subj) in
           if prefix g rest
           then match_here subj ts (pos + length g) (drop (length g) rest) os gs
           else None))"
| "match_here subj (Bos # ts) pos rest os gs =
     (if pos = 0 then match_here subj ts pos rest os gs else None)"
| "match_here subj (Eos # ts) pos rest os gs =
     (if rest = [] \<or> rest = [nl] then match_here subj ts pos rest os gs else None)"
  by pat_completeness auto
termination
  by (relation "measure (\<lambda>(subj, ts, pos, rest, os, gs). length ts + length rest)") auto

text \<open>
  \<open>finditer\<close>: the matches from left to right, each search starting where the last match
  ended. After an empty match the model moves one character on; no pattern of this
  module matches the empty string.
\<close>

function finditer_from :: "string \<Rightarrow> tok list \<Rightarrow> nat \<Rightarrow> string \<Rightarrow> (nat \<times> nat \<times> groups) list" where
  "finditer_from subj ts pos rest =
     (case match_here subj ts pos rest [] [] of
        None \<Rightarrow> (case rest of [] \<Rightarrow> [] | x # xs \<Rightarrow> finditer_from subj ts (Suc pos) xs)
      | Some (e, gs) \<Rightarrow>
          (pos, e, gs) #
          (case rest of
             [] \<Rightarrow> []
           | x # xs \<Rightarrow>
               if e \<le> pos then finditer_from subj ts (Suc pos) xs
               else finditer_from subj ts e (drop (e - pos) rest)))"
  by pat_completeness auto
termination
  by (relation "measure (\<lambda>(subj, ts, pos, rest). length rest)") auto

definition finditer :: "tok list \<Rightarrow> string \<Rightarrow> (nat \<times> nat \<times> groups) list" where
  "finditer ts subj = finditer_from subj ts 0 subj"

definition group :: "string \<Rightarrow> groups \<Rightarrow> string \<Rightarrow> string" where
  \<comment> \<open>\<open>match.group(name)\<close>; every group read in this module is set by every match of its
      pattern, so the \<open>None\<close> of an unset group is not modelled\<close>
  "group subj gs n = (case map_of gs n of None \<Rightarrow> [] | Some (s, e) \<Rightarrow> take (e - s) (drop s subj))"

definition re_match :: "tok list \<Rightarrow> string \<Rightarrow> bool" where
  \<comment> \<open>\<open>re.match(pattern, s)\<close> as a truth value\<close>
  "re_match ts s = (match_here s ts 0 s [] [] \<noteq> None)"

section \<open>Patterns\<close>

definition translation_old_new :: "tok list" where
  \<comment> \<open>\<open>(?P<head>old \"(?P<src>.*)\"(\s+)new )\"(?P<dst>.*)\"\<close>\<close>
  "translation_old_new =
     [Open ''head''] @ lit ''old '' @
     [One (Chr dq), Open ''src'', Star Dot, Close ''src'', One (Chr dq),
      Open ''3'', Plus Space, Close ''3''] @ lit ''new '' @
     [Close ''head'', One (Chr dq), Open ''dst'', Star Dot, Close ''dst'', One (Chr dq)]"

definition translation_say :: "tok list" where
  \<comment> \<open>\<open>(?P<head># (?P<char>[\w_]*)\s*\"(?P<src>.*)\"(\s+)(?P=char) )\"(?P<dst>.*)\"\<close>\<close>
  "translation_say =
     [Open ''head''] @ lit ''# '' @
     [Open ''char'', Star Word, Close ''char'', Star Space,
      One (Chr dq), Open ''src'', Star Dot, Close ''src'', One (Chr dq),
      Open ''4'', Plus Space, Close ''4'', Backref ''char'', One (Chr CHR '' ''),
      Close ''head'', One (Chr dq), Open ''dst'', Star Dot, Close ''dst'', One (Chr dq)]"

definition translation :: "tok list list" where
  \<comment> \<open>\<open>Pattern.translation\<close>\<close>
  "translation = [translation_old_new, translation_say]"

definition character :: "tok list" where
  \<comment> \<open>\<open>Pattern.character\<close>: \<open>.*Character\(\"(.+?)\".*\<close>\<close>
  "character =
     [Star Dot] @ lit ''Character('' @
     [One (Chr dq), Open ''1'', PlusLazy Dot, Close ''1'', One (Chr dq), Star Dot]"

definition bracketed :: "tok list" where
  \<comment> \<open>\<open>^\[.*\]$\<close>\<close>
  "bracketed = [Bos, One (Chr CHR ''[''), Star Dot, One (Chr CHR '']''), Eos]"

definition iter_tl :: "string \<Rightarrow> translation_match list" where
  \<comment> \<open>\<open>Pattern.iter_tl\<close>: the matches of the first pattern, then those of the second\<close>
  "iter_tl text =
     map (\<lambda>(s, e, gs).
            TranslationMatch (take (e - s) (drop s text))
              (group text gs ''head'') (group text gs ''src'') (group text gs ''dst''))
         (concat (map (\<lambda>p. finditer p text) translation))"


section \<open>Configuration\<close>

type_synonym path = "string list"
  \<comment> \<open>a \<open>pathlib.Path\<close> as the list of its components; \<open>p / q\<close> is \<open>p @ q\<close>\<close>

definition PRESERVE_FILES :: "string set" where
  "PRESERVE_FILES = {''gui'', ''screens''}"

definition PRESERVE_WORDS :: "string set" where
  "PRESERVE_WORDS =
     {''About'', ''After Choices'', ''Auto'', ''Back'', ''Disable'', ''Display'', ''Enter'',
      ''Escape'', ''Fullscreen'', ''Help'', ''History'', ''Load'', ''Main Menu'', ''Menu'', ''No'',
      ''Preference'', ''Preferences'', ''Prefs'', ''Q.Load'', ''Q.Save'', ''Quit'', ''Return'',
      ''Rollback Side'', ''Save'', ''Skip'', ''Space'', ''Start'', ''Tab'', ''Transitions'',
      ''Unseen Text'', ''Window'', ''Yes''}"

record preserve =
  files :: "string set"
  words :: "string set"

definition Preserve :: preserve where
  \<comment> \<open>the default \<open>Preserve()\<close>\<close>
  "Preserve = \<lparr>files = PRESERVE_FILES, words = PRESERVE_WORDS\<rparr>"

record config =
  language :: string
  batch_size :: int
  linebreak_threshold :: int
  dev_mode :: bool
  dev_script :: string
  preserve :: preserve

text \<open>
  \<open>Paths\<close>: a field that holds a relative path is kept as the path's components, an
  optional one as an option; the fields carry the prefix \<open>paths_\<close>.
\<close>

record paths =
  paths_tl :: path
  paths_script :: "path option"
  paths_characters :: "path option"
  paths_dev_mode :: path
  paths_backup :: "string option"

text \<open>\<open>RenpyTranslation\<close>, with the default \<open>Pattern\<close>.\<close>

record renpy_translation =
  path :: path
  conf :: config
  paths :: paths

section \<open>Paths and files\<close>

datatype error = FileNotFoundError path | ValueError

definition name :: "path \<Rightarrow> string" where
  "name p = (if p = [] then [] else last p)"

fun rfind :: "char \<Rightarrow> string \<Rightarrow> nat option" where
  "rfind c [] = None"
| "rfind c (x # xs) =
     (case rfind c xs of
        Some i \<Rightarrow> Some (Suc i)
      | None \<Rightarrow> if x = c then Some 0 else None)"

definition path_suffix :: "path \<Rightarrow> string" where
  \<comment> \<open>\<open>PurePath.suffix\<close>\<close>
  "path_suffix p =
     (case rfind CHR ''.'' (name p) of
        Some i \<Rightarrow> if 0 < i \<and> i + 1 < length (name p) then drop i (name p) else []
      | None \<Rightarrow> [])"

definition stem :: "path \<Rightarrow> string" where
  \<comment> \<open>\<open>PurePath.stem\<close>\<close>
  "stem p =
     (case rfind CHR ''.'' (name p) of
        Some i \<Rightarrow> if 0 < i \<and> i + 1 < length (name p) then take i (name p) else name p
      | None \<Rightarrow> name p)"

definition with_suffix :: "path \<Rightarrow> string \<Rightarrow> error + path" where
  \<comment> \<open>\<open>PurePath.with_suffix\<close>, for a well-formed suffix; an empty name raises\<close>
  "with_suffix p suf =
     (if name p = [] then Inl ValueError
      else Inr (butlast p @
                [take (length (name p) - length (path_suffix p)) (name p) @ suf]))"

text \<open>
  The file system holds regular files: an association list from a path to the decoded
  text of the file, in the order in which the host enumerates them. Directories are not
  entries of their own: a directory is present when a file lies under it.
\<close>

type_synonym fs = "(path \<times> string) list"

definition exists :: "fs \<Rightarrow> path \<Rightarrow> bool" where
  "exists fs p = (map_of fs p \<noteq> None)"

definition read_text :: "fs \<Rightarrow> path \<Rightarrow> error + string" where
  "read_text fs p = (case map_of fs p of None \<Rightarrow> Inl (FileNotFoundError p) | Some c \<Rightarrow> Inr c)"

definition write_text :: "fs \<Rightarrow> path \<Rightarrow> string \<Rightarrow> fs" where
  "write_text fs p c = AList.update p c fs"

definition unlink :: "fs \<Rightarrow> path \<Rightarrow> fs" where
  \<comment> \<open>\<open>Path.unlink(missing_ok=True)\<close>\<close>
  "unlink fs p = AList.delete p fs"

definition rglob_rpy :: "fs \<Rightarrow> path \<Rightarrow> path list" where
  \<comment> \<open>\<open>d.rglob('*.rpy')\<close>\<close>
  "rglob_rpy fs d = filter (\<lambda>p. strict_prefix d p \<and> suffix ''.rpy'' (name p)) (map fst fs)"

definition is_dir :: "fs \<Rightarrow> path \<Rightarrow> bool" where
  \<comment> \<open>a directory is present when a file lies under it\<close>
  "is_dir fs d = list_ex (\<lambda>p. strict_prefix d p) (map fst fs)"

definition make_archive :: "(fs \<Rightarrow> string) \<Rightarrow> fs \<Rightarrow> path \<Rightarrow> path \<Rightarrow> error + fs" where
  \<comment> \<open>\<open>shutil.make_archive(base_name, 'zip', root_dir)\<close>: it raises when \<open>root_dir\<close> is
      missing. The archiver itself is the parameter \<open>archive\<close>, from the files of the
      directory to the content of the archive\<close>
  "make_archive archive fs base_name root_dir =
     (if \<not> is_dir fs root_dir then Inl (FileNotFoundError root_dir)
      else Inr (write_text fs (butlast base_name @ [name base_name @ ''.zip''])
                  (archive (filter (\<lambda>(p, c). strict_prefix root_dir p) fs))))"

section \<open>The chunked reader\<close>

fun readlines :: "string \<Rightarrow> string \<Rightarrow> string list" where
  \<comment> \<open>the lines of a text file, each with its newline; the first argument is the line
      read so far\<close>
  "readlines cur [] = (if cur = [] then [] else [cur])"
| "readlines cur (c # cs) =
     (if c = nl then (cur @ [c]) # readlines [] cs else readlines (cur @ [c]) cs)"

fun iter_chunk :: "string list \<Rightarrow> string list \<Rightarrow> string list list" where
  \<comment> \<open>\<open>RpyReader.iter_chunk\<close> over the lines of the file; the first argument is the
      variable \<open>lines\<close>\<close>
  "iter_chunk lines [] = [lines]"
| "iter_chunk lines (line # rest) =
     (if strip line = [] then (lines @ [line]) # iter_chunk [] rest
      else iter_chunk (lines @ [line]) rest)"

function batched :: "'a list \<Rightarrow> nat \<Rightarrow> 'a list list" where
  \<comment> \<open>\<open>itertools.batched\<close> for \<open>n \<ge> 1\<close>\<close>
  "batched xs n = (if n = 0 \<or> xs = [] then [] else take n xs # batched (drop n xs) n)"
  by pat_completeness auto
termination
  by (relation "measure (\<lambda>(xs, n). length xs)") auto

declare batched.simps [simp del]

definition RpyReader_iter :: "fs \<Rightarrow> path \<Rightarrow> int \<Rightarrow> error + string list" where
  \<comment> \<open>\<open>RpyReader.__iter__\<close>: \<open>batched\<close> raises for \<open>n < 1\<close> before the file is opened\<close>
  "RpyReader_iter fs p n =
     (if n < 1 then Inl ValueError
      else case read_text fs p of
             Inl e \<Rightarrow> Inl e
           | Inr content \<Rightarrow>
               Inr (map (\<lambda>lines. concat (concat lines))
                      (batched (iter_chunk [] (readlines [] content)) (nat n))))"

section \<open>The rewriter\<close>

definition truthy :: "'a list option \<Rightarrow> 'a list option" where
  \<comment> \<open>\<open>None\<close> and the empty string are false\<close>
  "truthy x = (case x of None \<Rightarrow> None | Some v \<Rightarrow> if v = [] then None else Some v)"

text \<open>
  \<open>RenpyTranslation.characters\<close> is a cached property: the first read computes the set
  and stores it, every later read returns the stored set. The cache is the state
  \<open>string set option\<close> that the functions below pass along.
\<close>

definition characters ::
  "renpy_translation \<Rightarrow> fs \<Rightarrow> string set option \<Rightarrow> error + string set \<times> string set option"
where
  "characters self fs cache =
     (case cache of
        Some cs \<Rightarrow> Inr (cs, cache)
      | None \<Rightarrow>
          (case truthy (case truthy (paths_characters (paths self)) of
                          Some c \<Rightarrow> Some c
                        | None \<Rightarrow> paths_script (paths self)) of
             None \<Rightarrow> Inr ({}, Some {})
           | Some rpy \<Rightarrow>
               if \<not> exists fs (path self @ rpy) then Inl (FileNotFoundError (path self @ rpy))
               else
                 (case read_text fs (path self @ rpy) of
                    Inl e \<Rightarrow> Inl e
                  | Inr text \<Rightarrow>
                      (let cs = set (map (\<lambda>(s, e, gs). group text gs ''1'')
                                       (finditer character text))
                       in Inr (cs, Some cs)))))"

definition quoted :: "string \<Rightarrow> string" where
  "quoted s = dq # s @ [dq]"

definition edit_side_by_side ::
  "renpy_translation \<Rightarrow> fs \<Rightarrow> string set option \<Rightarrow> string \<Rightarrow> translation_match
   \<Rightarrow> error + string option \<times> string set option"
where
  "edit_side_by_side self fs cache text m =
     (case characters self fs cache of
        Inl e \<Rightarrow> Inl e
      | Inr (cs, cache') \<Rightarrow>
          Inr (if strip_of (src m) ''[]'' \<in> cs then
                 (if re_match bracketed (src m)
                  then Some (replace text (full m) (head m @ quoted (src m)))
                  else Some (replace text (full m)
                               (head m @ quoted (src m @ '' ('' @ dst m @ '')''))))
               else if int (length (src m)) \<le> linebreak_threshold (conf self)
               then Some (replace text (full m) (head m @ quoted (src m @ ''  |  '' @ dst m)))
               else
                 (let src' = replace (replace (src m) ''{w}'' []) ''{p}'' '' / '' in
                  if \<not> startswith (dst m) src'
                  then Some (replace text (full m)
                               (head m @ quoted (src' @ [bs, CHR ''n''] @ dst m)))
                  else None),
               cache'))"

definition edit ::
  "renpy_translation \<Rightarrow> fs \<Rightarrow> string set option \<Rightarrow> string \<Rightarrow> translation_match \<Rightarrow> bool
   \<Rightarrow> error + string option \<times> string set option"
where
  "edit self fs cache text m preserve' =
     (if startswith (dst m) (src m)
         \<or> (startswith (src m) ''old:'' \<and> startswith (dst m) ''new:'')
      then Inr (None, cache)
      else if preserve' \<or> strip_of (strip (src m)) ''.'' \<in> words (preserve (conf self))
      then Inr (Some (replace text (full m) (head m @ quoted (src m))), cache)
      else edit_side_by_side self fs cache text m)"

text \<open>
  \<open>_rpy\<close>: the matches are those of the chunk as it was read; every edit is applied to
  the text as the earlier edits left it. An edit that returns \<open>None\<close> or the empty
  string leaves the text as it is.
\<close>

fun rpy_loop ::
  "renpy_translation \<Rightarrow> fs \<Rightarrow> bool \<Rightarrow> translation_match list \<Rightarrow> string \<Rightarrow> string set option
   \<Rightarrow> error + string \<times> string set option"
where
  "rpy_loop self fs preserve' [] text cache = Inr (text, cache)"
| "rpy_loop self fs preserve' (m # ms) text cache =
     (case edit self fs cache text m preserve' of
        Inl e \<Rightarrow> Inl e
      | Inr (t, cache') \<Rightarrow>
          rpy_loop self fs preserve' ms
            (case t of None \<Rightarrow> text | Some t' \<Rightarrow> if t' = [] then text else t') cache')"

definition rpy_text ::
  "renpy_translation \<Rightarrow> fs \<Rightarrow> string set option \<Rightarrow> string \<Rightarrow> bool
   \<Rightarrow> error + string \<times> string set option"
where
  "rpy_text self fs cache text preserve' = rpy_loop self fs preserve' (iter_tl text) text cache"

fun rpy_chunks ::
  "renpy_translation \<Rightarrow> fs \<Rightarrow> bool \<Rightarrow> string list \<Rightarrow> string set option
   \<Rightarrow> error + string list \<times> string set option"
where
  "rpy_chunks self fs preserve' [] cache = Inr ([], cache)"
| "rpy_chunks self fs preserve' (text # texts) cache =
     (case rpy_text self fs cache text preserve' of
        Inl e \<Rightarrow> Inl e
      | Inr (t, cache') \<Rightarrow>
          (case rpy_chunks self fs preserve' texts cache' of
             Inl e \<Rightarrow> Inl e
           | Inr (ts, cache'') \<Rightarrow> Inr (t # ts, cache'')))"

definition joined :: "error + string list \<times> 'c \<Rightarrow> error + string \<times> 'c" where
  \<comment> \<open>\<open>''.join(texts)\<close> on the outcome of the generator \<open>texts\<close>\<close>
  "joined r = (case r of Inl e \<Rightarrow> Inl e | Inr (ts, c) \<Rightarrow> Inr (concat ts, c))"

definition rpy ::
  "renpy_translation \<Rightarrow> fs \<Rightarrow> string set option \<Rightarrow> path \<Rightarrow> error + string \<times> string set option"
where
  "rpy self fs cache p =
     (case RpyReader_iter fs p (batch_size (conf self)) of
        Inl e \<Rightarrow> Inl e
      | Inr texts \<Rightarrow>
          joined (rpy_chunks self fs (stem p \<in> files (preserve (conf self))) texts cache))"

section \<open>The run\<close>

text \<open>
  Every step returns the file system it leaves behind, also when it raises: the first
  component of the result is the exception, if any.
\<close>

definition backup_step :: "(fs \<Rightarrow> string) \<Rightarrow> renpy_translation \<Rightarrow> fs \<Rightarrow> error + fs" where
  "backup_step archive self fs =
     (let tl = path self @ paths_tl (paths self);
          backup = tl @ [language (conf self) @
                         (case paths_backup (paths self) of None \<Rightarrow> ''None'' | Some b \<Rightarrow> b)]
      in case truthy (paths_backup (paths self)) of
           None \<Rightarrow> Inr fs
         | Some b \<Rightarrow>
             (case with_suffix backup ''.zip'' of
                Inl e \<Rightarrow> Inl e
              | Inr z \<Rightarrow>
                  if \<not> exists fs z
                  then make_archive archive fs backup (tl @ [language (conf self)])
                  else Inr fs))"

definition rewrite_file ::
  "renpy_translation \<Rightarrow> path \<Rightarrow> fs \<Rightarrow> string set option \<Rightarrow> error option \<times> fs \<times> string set option"
where
  \<comment> \<open>the body of the loop of \<open>__call__\<close>\<close>
  "rewrite_file self p fs cache =
     (case rpy self fs cache p of
        Inl e \<Rightarrow> (Some e, fs, cache)
      | Inr (text, cache') \<Rightarrow>
          (case read_text fs p of
             Inl e \<Rightarrow> (Some e, fs, cache')
           | Inr content \<Rightarrow>
               if content \<noteq> text then
                 (case with_suffix p ''.rpyc'' of
                    Inl e \<Rightarrow> (Some e, write_text fs p text, cache')
                  | Inr pc \<Rightarrow> (None, unlink (write_text fs p text) pc, cache'))
               else (None, fs, cache')))"

fun rewrite_loop ::
  "renpy_translation \<Rightarrow> path list \<Rightarrow> fs \<Rightarrow> string set option \<Rightarrow> error option \<times> fs \<times> string set option"
where
  "rewrite_loop self [] fs cache = (None, fs, cache)"
| "rewrite_loop self (p # ps) fs cache =
     (case rewrite_file self p fs cache of
        (Some e, fs', cache') \<Rightarrow> (Some e, fs', cache')
      | (None, fs', cache') \<Rightarrow> rewrite_loop self ps fs' cache')"

definition dev_step :: "renpy_translation \<Rightarrow> fs \<Rightarrow> error + fs" where
  "dev_step self fs =
     (if \<not> dev_mode (conf self) then Inr fs
      else case with_suffix (path self @ paths_dev_mode (paths self)) ''.rpy'' of
             Inl e \<Rightarrow> Inl e
           | Inr dev \<Rightarrow>
               if exists fs dev then Inr fs
               else Inr (write_text fs dev (dev_script (conf self))))"

definition call :: "(fs \<Rightarrow> string) \<Rightarrow> renpy_translation \<Rightarrow> fs \<Rightarrow> error option \<times> fs" where
  \<comment> \<open>\<open>RenpyTranslation.__call__\<close> on a fresh object: the cache starts empty\<close>
  "call archive self fs =
     (case backup_step archive self fs of
        Inl e \<Rightarrow> (Some e, fs)
      | Inr fs1 \<Rightarrow>
          (let language_dir = path self @ paths_tl (paths self) @ [language (conf self)];
               rpys = rglob_rpy fs1 language_dir
           in if rpys = [] then (Some (FileNotFoundError language_dir), fs1)
              else
                (case rewrite_loop self rpys fs1 None of
                   (Some e, fs2, cache) \<Rightarrow> (Some e, fs2)
                 | (None, fs2, cache) \<Rightarrow>
                     (case dev_step self fs2 of
                        Inl e \<Rightarrow> (Some e, fs2)
                      | Inr fs3 \<Rightarrow> (None, fs3)))))"


section \<open>The words of the specification\<close>

text \<open>
  The specification describes the replacement of an entry as a replacement of the first
  occurrence only. \<open>replace_first\<close> is that reading, \<open>text.replace(old, new, 1)\<close>.
\<close>

fun replace_first :: "string \<Rightarrow> string \<Rightarrow> string \<Rightarrow> string" where
  "replace_first [] old new = (if old = [] then new else [])"
| "replace_first (c # cs) old new =
     (if prefix old (c # cs) then new @ drop (length old) (c # cs)
      else c # replace_first cs old new)"

section \<open>Example inputs\<close>

definition example_conf :: config where
  \<comment> \<open>the default \<open>Config()\<close> but for the developer script\<close>
  "example_conf =
     \<lparr>language = ''korean'', batch_size = 100, linebreak_threshold = 12, dev_mode = True,
      dev_script = ''init 9999 python:'', preserve = Preserve\<rparr>"

definition example_paths :: paths where
  \<comment> \<open>the default \<open>Paths()\<close> without a script: the set of characters is empty\<close>
  "example_paths =
     \<lparr>paths_tl = [''game'', ''tl''], paths_script = None, paths_characters = None,
      paths_dev_mode = [''game'', ''__dev_mode.rpy''], paths_backup = Some ''Backup''\<rparr>"

definition example_self :: renpy_translation where
  "example_self = \<lparr>path = [''project''], conf = example_conf, paths = example_paths\<rparr>"



section \<open>Properties of the percent normalisation\<close>

lemma percent_sub_index:
  "k \<le> length t \<Longrightarrow>
   percent_sub (0 < k \<and> t ! (k - 1) = CHR ''%'') (drop k t) =
   concat (map (\<lambda>i. if isolated t i then ''%%'' else [t ! i]) [k..<length t])"
proof (induction "length t - k" arbitrary: k)
  case 0
  then show ?case by simp
next
  case (Suc n)
  then have lt: "k < length t" by simp
  then have dr: "drop k t = t ! k # drop (Suc k) t"
    by (simp add: Cons_nth_drop_Suc)
  have up: "[k..<length t] = k # [Suc k..<length t]"
    using lt by (simp add: upt_conv_Cons)
  have ih: "percent_sub (t ! k = CHR ''%'') (drop (Suc k) t) =
    concat (map (\<lambda>i. if isolated t i then ''%%'' else [t ! i]) [Suc k..<length t])"
    using Suc.hyps(1) [of "Suc k"] Suc.hyps(2) lt by simp
  have nxt: "(case drop (Suc k) t of [] \<Rightarrow> True | d # _ \<Rightarrow> d \<noteq> CHR ''%'') =
    (Suc k < length t \<longrightarrow> t ! Suc k \<noteq> CHR ''%'')"
  proof (cases "Suc k < length t")
    case True
    then have "drop (Suc k) t = t ! Suc k # drop (Suc (Suc k)) t"
      by (simp add: Cons_nth_drop_Suc)
    with True show ?thesis by simp
  next
    case False
    then show ?thesis by simp
  qed
  show ?case
  proof (cases "isolated t k")
    case True
    then have "percent_sub (0 < k \<and> t ! (k - 1) = CHR ''%'') (drop k t) =
      ''%%'' @ percent_sub True (drop (Suc k) t)"
      unfolding dr using nxt by (auto simp: isolated_def)
    moreover from True have "t ! k = CHR ''%''" by (simp add: isolated_def)
    ultimately show ?thesis using ih True up by simp
  next
    case False
    then have "percent_sub (0 < k \<and> t ! (k - 1) = CHR ''%'') (drop k t) =
      t ! k # percent_sub (t ! k = CHR ''%'') (drop (Suc k) t)"
      unfolding dr using nxt by (auto simp: isolated_def)
    then show ?thesis using ih False up by simp
  qed
qed

lemma PERCENT_sub_index:
  "PERCENT_sub s = concat (map (\<lambda>i. if isolated s i then ''%%'' else [s ! i]) [0..<length s])"
  using percent_sub_index [of 0 s] by (simp add: PERCENT_sub_def)

lemma concat_map_nth_id: "concat (map (\<lambda>i. [s ! i]) [0..<length s]) = s"
proof -
  have "concat (map (\<lambda>i. [s ! i]) [0..<length s]) = map (\<lambda>i. s ! i) [0..<length s]"
    by (induction "[0..<length s]") (simp_all add: concat_map_singleton)
  then show ?thesis by (simp add: map_nth)
qed

lemma PERCENT_sub_unchanged:
  assumes "\<forall>i<length s. \<not> isolated s i"
  shows "PERCENT_sub s = s"
proof -
  have same: "map (\<lambda>i. if isolated s i then ''%%'' else [s ! i]) [0..<length s] =
        map (\<lambda>i. [s ! i]) [0..<length s]"
    using assms by simp
  show ?thesis by (simp only: PERCENT_sub_index same concat_map_nth_id)
qed

lemma percent_sub_no_percent: "CHR ''%'' \<notin> set s \<Longrightarrow> percent_sub p s = s"
  by (induction s arbitrary: p) auto

lemma percent_sub_single:
  "CHR ''%'' \<notin> set a \<Longrightarrow> CHR ''%'' \<notin> set b \<Longrightarrow>
   percent_sub False (a @ CHR ''%'' # b) = a @ ''%%'' @ b"
proof (induction a)
  case Nil
  then show ?case by (cases b) (auto simp: percent_sub_no_percent)
next
  case (Cons x a)
  then show ?case by auto
qed


section \<open>Properties of the replacement\<close>

lemma replace_hit:
  assumes "old \<noteq> []"
  shows "replace (old @ r) old new = new @ replace r old new"
proof -
  from assms obtain c cs where eq: "old @ r = c # cs"
    by (cases "old @ r") auto
  have "prefix old (c # cs)"
    unfolding eq [symmetric] by simp
  with assms have "replace (c # cs) old new = new @ replace (drop (length old) (c # cs)) old new"
    by simp
  then show ?thesis
    unfolding eq [symmetric] by simp
qed

lemma replace_skip:
  "old \<noteq> [] \<Longrightarrow> \<forall>i<length a. \<not> prefix old (drop i (a @ r)) \<Longrightarrow>
   replace (a @ r) old new = a @ replace r old new"
proof (induction a)
  case Nil
  then show ?case by simp
next
  case (Cons x a)
  from Cons.prems(2) have "\<not> prefix old (drop 0 ((x # a) @ r))" by blast
  then have no: "\<not> prefix old (x # a @ r)" by simp
  have "\<forall>i<length a. \<not> prefix old (drop i (a @ r))"
  proof (intro allI impI)
    fix i assume "i < length a"
    then have "Suc i < length (x # a)" by simp
    with Cons.prems(2) have "\<not> prefix old (drop (Suc i) ((x # a) @ r))" by blast
    then show "\<not> prefix old (drop i (a @ r))" by simp
  qed
  with Cons.IH Cons.prems(1) have "replace (a @ r) old new = a @ replace r old new" by blast
  with no Cons.prems(1) show ?case by simp
qed

lemma edit_side_by_side_Some:
  "edit_side_by_side self fs cache text m = Inr (Some t, cache') \<Longrightarrow>
   \<exists>x. t = replace text (full m) (head m @ x)"
  by (auto simp: edit_side_by_side_def Let_def split: sum.splits if_splits prod.splits)

lemma edit_Some:
  "edit self fs cache text m preserve' = Inr (Some t, cache') \<Longrightarrow>
   \<exists>x. t = replace text (full m) (head m @ x)"
  by (auto simp: edit_def split: if_splits dest: edit_side_by_side_Some)

section \<open>Properties of the entries\<close>

lemma iter_tl_constructed:
  "m \<in> set (iter_tl text) \<Longrightarrow> \<exists>f h s d. m = TranslationMatch f h s d"
  by (auto simp: iter_tl_def)

text \<open>
  C5. Percent normalisation on entry construction: a translated string with exactly one
  percent sign has it doubled; a translated string in which no percent sign stands alone
  (all of them are already doubled) is left unchanged; a translated string without a
  percent sign is left unchanged. The constructor does this whatever the rewriter decides
  later: it has no argument for the policy, it leaves the other three fields as they are,
  and every entry that \<open>iter_tl\<close> yields is built by it.
\<close>

theorem percent_normalisation_on_construction:
  "(CHR ''%'' \<notin> set a \<and> CHR ''%'' \<notin> set b \<longrightarrow>
      dst (TranslationMatch f h s (a @ ''%'' @ b)) = a @ ''%%'' @ b)
   \<and> ((\<forall>i<length d. d ! i = CHR ''%'' \<longrightarrow> \<not> isolated d i) \<longrightarrow>
      dst (TranslationMatch f h s d) = d)
   \<and> (CHR ''%'' \<notin> set d \<longrightarrow> dst (TranslationMatch f h s d) = d)
   \<and> full (TranslationMatch f h s d) = f \<and> head (TranslationMatch f h s d) = h
   \<and> src (TranslationMatch f h s d) = s
   \<and> (\<forall>m \<in> set (iter_tl text). \<exists>f h s d. m = TranslationMatch f h s d)"
proof -
  have one: "CHR ''%'' \<notin> set a \<and> CHR ''%'' \<notin> set b \<longrightarrow>
      dst (TranslationMatch f h s (a @ ''%'' @ b)) = a @ ''%%'' @ b"
    using percent_sub_single [of a b] by (simp add: TranslationMatch_def PERCENT_sub_def)
  have doubled: "(\<forall>i<length d. d ! i = CHR ''%'' \<longrightarrow> \<not> isolated d i) \<longrightarrow>
      dst (TranslationMatch f h s d) = d"
  proof
    assume "\<forall>i<length d. d ! i = CHR ''%'' \<longrightarrow> \<not> isolated d i"
    then have "\<forall>i<length d. \<not> isolated d i"
      by (auto simp: isolated_def)
    then show "dst (TranslationMatch f h s d) = d"
      by (simp add: TranslationMatch_def PERCENT_sub_unchanged)
  qed
  have none: "CHR ''%'' \<notin> set d \<longrightarrow> dst (TranslationMatch f h s d) = d"
    by (simp add: TranslationMatch_def PERCENT_sub_def percent_sub_no_percent)
  have fields: "full (TranslationMatch f h s d) = f \<and> head (TranslationMatch f h s d) = h
      \<and> src (TranslationMatch f h s d) = s"
    by (simp add: TranslationMatch_def)
  have built: "\<forall>m \<in> set (iter_tl text). \<exists>f h s d. m = TranslationMatch f h s d"
    using iter_tl_constructed by blast
  from one doubled none fields built show ?thesis by blast
qed

theorem percent_normalisation_on_construction_witness:
  "dst (TranslationMatch ''f'' ''h'' ''s'' (''5'' @ ''%'' @ '' off'')) = ''5'' @ ''%%'' @ '' off''
   \<and> dst (TranslationMatch ''f'' ''h'' ''s'' ''5%% off'') = ''5%% off''
   \<and> dst (TranslationMatch ''f'' ''h'' ''s'' ''five'') = ''five''
   \<and> (\<exists>f h s d. \<lparr>full = ''old '' @ [dq] @ ''5% a'' @ [dq, nl] @ ''    new '' @ [dq] @ ''x'' @ [dq],
                    head = ''old '' @ [dq] @ ''5% a'' @ [dq, nl] @ ''    new '', src = ''5% a'', dst = ''x''\<rparr>
                  = TranslationMatch f h s d)"
proof -
  let ?text = "''    old '' @ [dq] @ ''5% a'' @ [dq, nl] @ ''    new '' @ [dq] @ ''x'' @ [dq, nl]"
  let ?m = "\<lparr>full = ''old '' @ [dq] @ ''5% a'' @ [dq, nl] @ ''    new '' @ [dq] @ ''x'' @ [dq],
             head = ''old '' @ [dq] @ ''5% a'' @ [dq, nl] @ ''    new '', src = ''5% a'', dst = ''x''\<rparr>"
  have a: "CHR ''%'' \<notin> set ''5'' \<and> CHR ''%'' \<notin> set '' off''" by simp
  have b: "\<forall>i<length ''5%% off''. ''5%% off'' ! i = CHR ''%'' \<longrightarrow> \<not> isolated ''5%% off'' i"
    by (auto simp: isolated_def less_Suc_eq nth_Cons')
  have c: "CHR ''%'' \<notin> set ''five''" by simp
  have m: "?m \<in> set (iter_tl ?text)" by code_simp
  show ?thesis
    using a b c m
      percent_normalisation_on_construction [of "''5''" "'' off''" "''f''" "''h''" "''s''" "''5%% off''" ?text]
      percent_normalisation_on_construction [of "''5''" "'' off''" "''f''" "''h''" "''s''" "''five''" ?text]
    by blast
qed

text \<open>
  C10. The normalisation doubles every isolated percent sign, however many there are:
  the result is the translated string with each percent sign that has no percent sign
  next to it written twice and every other character left as it is; \<open>a% b%\<close> becomes
  \<open>a%% b%%\<close>.
\<close>

theorem percent_doubles_every_isolated:
  "dst (TranslationMatch f h s d) =
     concat (map (\<lambda>i. if isolated d i then ''%%'' else [d ! i]) [0..<length d])
   \<and> dst (TranslationMatch f h s ''a% b%'') = ''a%% b%%''"
  by (simp add: TranslationMatch_def PERCENT_sub_index [symmetric] PERCENT_sub_def)

theorem percent_doubles_every_isolated_witness:
  "dst (TranslationMatch ''f'' ''h'' ''s'' ''50% of 10%, 5%%'') = ''50%% of 10%%, 5%%''"
proof -
  have "dst (TranslationMatch ''f'' ''h'' ''s'' ''50% of 10%, 5%%'') =
     concat (map (\<lambda>i. if isolated ''50% of 10%, 5%%'' i then ''%%'' else [''50% of 10%, 5%%'' ! i])
       [0..<length ''50% of 10%, 5%%''])"
    using percent_doubles_every_isolated [of "''f''" "''h''" "''s''" "''50% of 10%, 5%%''"]
    by blast
  also have "\<dots> = ''50%% of 10%%, 5%%''"
    by code_simp
  finally show ?thesis .
qed

section \<open>Properties of the rewriter\<close>

lemma replace_empty: "replace text old new = [] \<Longrightarrow> new \<noteq> [] \<Longrightarrow> text = []"
  by (cases "text") (auto split: if_splits)

text \<open>
  C2, as stated, fails. The chunk holds the same entry twice; the edit of the first match
  rewrites both copies, where a replacement of the first occurrence would leave the
  second copy as it was.
\<close>

theorem first_occurrence_only_counterexample:
  "hd (iter_tl (''old '' @ [dq] @ ''a'' @ [dq, nl] @ ''    new '' @ [dq] @ ''b'' @ [dq, nl] @ ''old '' @ [dq] @ ''a'' @ [dq, nl] @ ''    new '' @ [dq] @ ''b'' @ [dq, nl])) = TranslationMatch (''old '' @ [dq] @ ''a'' @ [dq, nl] @ ''    new '' @ [dq] @ ''b'' @ [dq]) (''old '' @ [dq] @ ''a'' @ [dq, nl] @ ''    new '') ''a'' ''b''
   \<and> edit example_self [] None (''old '' @ [dq] @ ''a'' @ [dq, nl] @ ''    new '' @ [dq] @ ''b'' @ [dq, nl] @ ''old '' @ [dq] @ ''a'' @ [dq, nl] @ ''    new '' @ [dq] @ ''b'' @ [dq, nl])
        (TranslationMatch (''old '' @ [dq] @ ''a'' @ [dq, nl] @ ''    new '' @ [dq] @ ''b'' @ [dq]) (''old '' @ [dq] @ ''a'' @ [dq, nl] @ ''    new '') ''a'' ''b'') False
      = Inr (Some (''old '' @ [dq] @ ''a'' @ [dq, nl] @ ''    new '' @ [dq] @ ''a  |  b'' @ [dq, nl] @ ''old '' @ [dq] @ ''a'' @ [dq, nl] @ ''    new '' @ [dq] @ ''a  |  b'' @ [dq, nl]), Some {})
   \<and> replace_first (''old '' @ [dq] @ ''a'' @ [dq, nl] @ ''    new '' @ [dq] @ ''b'' @ [dq, nl] @ ''old '' @ [dq] @ ''a'' @ [dq, nl] @ ''    new '' @ [dq] @ ''b'' @ [dq, nl]) (''old '' @ [dq] @ ''a'' @ [dq, nl] @ ''    new '' @ [dq] @ ''b'' @ [dq]) (''old '' @ [dq] @ ''a'' @ [dq, nl] @ ''    new '' @ [dq] @ ''a  |  b'' @ [dq]) = ''old '' @ [dq] @ ''a'' @ [dq, nl] @ ''    new '' @ [dq] @ ''a  |  b'' @ [dq, nl] @ ''old '' @ [dq] @ ''a'' @ [dq, nl] @ ''    new '' @ [dq] @ ''b'' @ [dq, nl]
   \<and> ''old '' @ [dq] @ ''a'' @ [dq, nl] @ ''    new '' @ [dq] @ ''a  |  b'' @ [dq, nl] @ ''old '' @ [dq] @ ''a'' @ [dq, nl] @ ''    new '' @ [dq] @ ''a  |  b'' @ [dq, nl] \<noteq> ''old '' @ [dq] @ ''a'' @ [dq, nl] @ ''    new '' @ [dq] @ ''a  |  b'' @ [dq, nl] @ ''old '' @ [dq] @ ''a'' @ [dq, nl] @ ''    new '' @ [dq] @ ''b'' @ [dq, nl]"
  by code_simp

text \<open>
  C2, amended. When the rewriter edits an entry, the replacement is a substring replace
  of the entry's exact full-match text within the chunk that replaces every occurrence:
  if the full-match text occurs at two places of the chunk (and at no earlier place),
  both occurrences are replaced by the same new text, which starts with the entry's
  head, and the rest of the chunk is treated in the same way.
\<close>

theorem edit_replaces_every_occurrence:
  assumes "edit self fs cache (a @ full m @ b @ full m @ c) m preserve' = Inr (Some t, cache')"
    and "full m \<noteq> []"
    and "\<forall>i<length a. \<not> prefix (full m) (drop i (a @ full m @ b @ full m @ c))"
    and "\<forall>i<length b. \<not> prefix (full m) (drop i (b @ full m @ c))"
  shows "\<exists>x. t = a @ (head m @ x) @ b @ (head m @ x) @ replace c (full m) (head m @ x)"
proof -
  from assms(1) obtain x where t: "t = replace (a @ full m @ b @ full m @ c) (full m) (head m @ x)"
    using edit_Some by blast
  have "replace (a @ full m @ b @ full m @ c) (full m) (head m @ x) =
        a @ replace (full m @ b @ full m @ c) (full m) (head m @ x)"
    using replace_skip [OF assms(2) assms(3)] by simp
  also have "replace (full m @ b @ full m @ c) (full m) (head m @ x) =
        (head m @ x) @ replace (b @ full m @ c) (full m) (head m @ x)"
    using replace_hit [OF assms(2)] by simp
  also have "replace (b @ full m @ c) (full m) (head m @ x) =
        b @ replace (full m @ c) (full m) (head m @ x)"
    using replace_skip [OF assms(2) assms(4)] by simp
  also have "replace (full m @ c) (full m) (head m @ x) =
        (head m @ x) @ replace c (full m) (head m @ x)"
    using replace_hit [OF assms(2)] by simp
  finally show ?thesis using t by auto
qed

theorem edit_replaces_every_occurrence_witness:
  "\<exists>x. ''old '' @ [dq] @ ''a'' @ [dq, nl] @ ''    new '' @ [dq] @ ''a  |  b'' @ [dq, nl] @ ''old '' @ [dq] @ ''a'' @ [dq, nl] @ ''    new '' @ [dq] @ ''a  |  b'' @ [dq, nl] =
     [] @ ((''old '' @ [dq] @ ''a'' @ [dq, nl] @ ''    new '') @ x) @ [nl] @ ((''old '' @ [dq] @ ''a'' @ [dq, nl] @ ''    new '') @ x)
     @ replace [nl] (''old '' @ [dq] @ ''a'' @ [dq, nl] @ ''    new '' @ [dq] @ ''b'' @ [dq]) ((''old '' @ [dq] @ ''a'' @ [dq, nl] @ ''    new '') @ x)"
proof -
  let ?m = "TranslationMatch (''old '' @ [dq] @ ''a'' @ [dq, nl] @ ''    new '' @ [dq] @ ''b'' @ [dq]) (''old '' @ [dq] @ ''a'' @ [dq, nl] @ ''    new '') ''a'' ''b''"
  have e: "edit example_self [] None ([] @ full ?m @ [nl] @ full ?m @ [nl]) ?m False
      = Inr (Some (''old '' @ [dq] @ ''a'' @ [dq, nl] @ ''    new '' @ [dq] @ ''a  |  b'' @ [dq, nl] @ ''old '' @ [dq] @ ''a'' @ [dq, nl] @ ''    new '' @ [dq] @ ''a  |  b'' @ [dq, nl]), Some {})"
    by code_simp
  have n: "full ?m \<noteq> []" by (simp add: TranslationMatch_def)
  have a: "\<forall>i<length ([] :: string). \<not> prefix (full ?m) (drop i ([] @ full ?m @ [nl] @ full ?m @ [nl]))"
    by simp
  have b: "\<forall>i<length [nl]. \<not> prefix (full ?m) (drop i ([nl] @ full ?m @ [nl]))"
    by (simp add: TranslationMatch_def nl_def)
  show ?thesis
    using edit_replaces_every_occurrence [OF e n a b] by (simp add: TranslationMatch_def)
qed




text \<open>
  C6, as stated, fails. In the preserved file \<open>gui.rpy\<close> the entry with the source
  \<open>Start\<close> and the translation \<open>Start game\<close> is matched and is caught by the no-op
  guard, which comes first: the file keeps the translation, it is not rewritten to the
  source-only form.
\<close>

theorem preserved_file_counterexample:
  "stem [''project'', ''game'', ''tl'', ''korean'', ''gui.rpy''] \<in> files (preserve (conf example_self))
   \<and> iter_tl (''    old '' @ [dq] @ ''Start'' @ [dq, nl] @ ''    new '' @ [dq] @ ''Start game'' @ [dq, nl]) =
       [TranslationMatch (''old '' @ [dq] @ ''Start'' @ [dq, nl] @ ''    new '' @ [dq] @ ''Start game'' @ [dq]) (''old '' @ [dq] @ ''Start'' @ [dq, nl] @ ''    new '') ''Start'' ''Start game'']
   \<and> rpy example_self [([''project'', ''game'', ''tl'', ''korean'', ''gui.rpy''], ''    old '' @ [dq] @ ''Start'' @ [dq, nl] @ ''    new '' @ [dq] @ ''Start game'' @ [dq, nl])] None [''project'', ''game'', ''tl'', ''korean'', ''gui.rpy''] = Inr (''    old '' @ [dq] @ ''Start'' @ [dq, nl] @ ''    new '' @ [dq] @ ''Start game'' @ [dq, nl], None)
   \<and> ''    old '' @ [dq] @ ''Start'' @ [dq, nl] @ ''    new '' @ [dq] @ ''Start game'' @ [dq, nl] \<noteq> replace (''    old '' @ [dq] @ ''Start'' @ [dq, nl] @ ''    new '' @ [dq] @ ''Start game'' @ [dq, nl]) (''old '' @ [dq] @ ''Start'' @ [dq, nl] @ ''    new '' @ [dq] @ ''Start game'' @ [dq]) ((''old '' @ [dq] @ ''Start'' @ [dq, nl] @ ''    new '') @ quoted ''Start'')"
  by code_simp

text \<open>
  C6, amended. Preserved-file guard: for every file whose name stem is in the
  preserved-files set, every matched entry that the no-op guard does not catch is
  rewritten to the source-only form (head followed by the quoted source text, the
  translation discarded), whatever the length of the source, the threshold and the set of
  characters: the set of characters is not even read.
\<close>

theorem preserved_file_source_only:
  assumes "stem p \<in> files (preserve (conf self))"
    and "\<not> startswith (dst m) (src m)"
    and "\<not> (startswith (src m) ''old:'' \<and> startswith (dst m) ''new:'')"
  shows "edit self fs cache text m (stem p \<in> files (preserve (conf self)))
           = Inr (Some (replace text (full m) (head m @ quoted (src m))), cache)
         \<and> rpy_loop self fs (stem p \<in> files (preserve (conf self))) [m] text cache
           = Inr (replace text (full m) (head m @ quoted (src m)), cache)"
proof -
  have e: "edit self fs cache text m (stem p \<in> files (preserve (conf self)))
           = Inr (Some (replace text (full m) (head m @ quoted (src m))), cache)"
    using assms by (simp add: edit_def)
  have "replace text (full m) (head m @ quoted (src m)) = [] \<Longrightarrow> text = []"
    using replace_empty [of "text" "full m" "head m @ quoted (src m)"] by (simp add: quoted_def)
  then have "(if replace text (full m) (head m @ quoted (src m)) = [] then text
              else replace text (full m) (head m @ quoted (src m)))
             = replace text (full m) (head m @ quoted (src m))"
    by auto
  with e show ?thesis by simp
qed

theorem preserved_file_source_only_witness:
  "edit example_self [] None (''    old '' @ [dq] @ ''long{p}string{w}'' @ [dq, nl] @ ''    new '' @ [dq] @ ''%translated'' @ [dq, nl])
     (TranslationMatch (''old '' @ [dq] @ ''long{p}string{w}'' @ [dq, nl] @ ''    new '' @ [dq] @ ''%translated'' @ [dq]) (''old '' @ [dq] @ ''long{p}string{w}'' @ [dq, nl] @ ''    new '') ''long{p}string{w}'' ''%translated'') True
     = Inr (Some (''    old '' @ [dq] @ ''long{p}string{w}'' @ [dq, nl] @ ''    new '' @ [dq] @ ''long{p}string{w}'' @ [dq, nl]), None)"
proof -
  let ?m = "TranslationMatch (''old '' @ [dq] @ ''long{p}string{w}'' @ [dq, nl] @ ''    new '' @ [dq] @ ''%translated'' @ [dq]) (''old '' @ [dq] @ ''long{p}string{w}'' @ [dq, nl] @ ''    new '') ''long{p}string{w}'' ''%translated''"
  have a: "stem [''project'', ''game'', ''tl'', ''korean'', ''gui.rpy''] \<in> files (preserve (conf example_self))" by code_simp
  have b: "\<not> startswith (dst ?m) (src ?m)" by code_simp
  have c: "\<not> (startswith (src ?m) ''old:'' \<and> startswith (dst ?m) ''new:'')" by code_simp
  have r: "replace (''    old '' @ [dq] @ ''long{p}string{w}'' @ [dq, nl] @ ''    new '' @ [dq] @ ''%translated'' @ [dq, nl]) (full ?m) (head ?m @ quoted (src ?m)) = ''    old '' @ [dq] @ ''long{p}string{w}'' @ [dq, nl] @ ''    new '' @ [dq] @ ''long{p}string{w}'' @ [dq, nl]"
    by code_simp
  show ?thesis
    using preserved_file_source_only [OF a b c, of "[]" None "''    old '' @ [dq] @ ''long{p}string{w}'' @ [dq, nl] @ ''    new '' @ [dq] @ ''%translated'' @ [dq, nl]"] a r by simp
qed

text \<open>
  C7, as stated, fails. Both entries have a source longer than the threshold that is no
  preserved word and no character name, and whose normalised form is no prefix of the
  translation. The first stands in a preserved file and is rewritten to the source-only
  form; the second carries the markers \<open>old:\<close> and \<open>new:\<close> and is not rewritten at all.
\<close>

theorem long_string_merge_counterexample:
  "linebreak_threshold (conf example_self) < int (length ''long{p}string{w}'')
   \<and> strip_of (strip ''long{p}string{w}'') ''.'' \<notin> words (preserve (conf example_self))
   \<and> characters example_self [] None = Inr ({}, Some {})
   \<and> \<not> startswith (PERCENT_sub ''%translated'')
         (replace (replace ''long{p}string{w}'' ''{w}'' []) ''{p}'' '' / '')
   \<and> edit example_self [] None (''    old '' @ [dq] @ ''long{p}string{w}'' @ [dq, nl] @ ''    new '' @ [dq] @ ''%translated'' @ [dq, nl])
        (TranslationMatch (''old '' @ [dq] @ ''long{p}string{w}'' @ [dq, nl] @ ''    new '' @ [dq] @ ''%translated'' @ [dq]) (''old '' @ [dq] @ ''long{p}string{w}'' @ [dq, nl] @ ''    new '') ''long{p}string{w}'' ''%translated'') True
       = Inr (Some (''    old '' @ [dq] @ ''long{p}string{w}'' @ [dq, nl] @ ''    new '' @ [dq] @ ''long{p}string{w}'' @ [dq, nl]), None)
   \<and> ''    old '' @ [dq] @ ''long{p}string{w}'' @ [dq, nl] @ ''    new '' @ [dq] @ ''long{p}string{w}'' @ [dq, nl] \<noteq> ''    old '' @ [dq] @ ''long{p}string{w}'' @ [dq, nl] @ ''    new '' @ [dq] @ ''long / string'' @ [bs] @ ''n%%translated'' @ [dq, nl]
   \<and> linebreak_threshold (conf example_self) < int (length ''old: a long source'')
   \<and> strip_of (strip ''old: a long source'') ''.'' \<notin> words (preserve (conf example_self))
   \<and> \<not> startswith (PERCENT_sub ''new: x'')
         (replace (replace ''old: a long source'' ''{w}'' []) ''{p}'' '' / '')
   \<and> edit example_self [] None (''    old '' @ [dq] @ ''old: a long source'' @ [dq, nl] @ ''    new '' @ [dq] @ ''new: x'' @ [dq, nl])
        (TranslationMatch (''old '' @ [dq] @ ''old: a long source'' @ [dq, nl] @ ''    new '' @ [dq] @ ''new: x'' @ [dq]) (''old '' @ [dq] @ ''old: a long source'' @ [dq, nl] @ ''    new '') ''old: a long source'' ''new: x'') False
       = Inr (None, None)"
  by code_simp

text \<open>
  C7, amended. Long-string merge: for an entry in a file that is not preserved, which the
  no-op guard does not catch, whose source is longer than the linebreak threshold, is not
  a preserved word, is not a known character name, and whose normalised source is not
  already a prefix of the translation, the rewriter removes every \<open>{w}\<close> token from the
  source, replaces every \<open>{p}\<close> token with \<open> / \<close>, and replaces the full match by head,
  double quote, normalised source, the two characters backslash and \<open>n\<close>, translation,
  double quote. What it inserts between source and translation holds no newline
  character.
\<close>

theorem long_string_merge:
  assumes "\<not> preserve'"
    and "\<not> startswith (dst m) (src m)"
    and "\<not> (startswith (src m) ''old:'' \<and> startswith (dst m) ''new:'')"
    and "strip_of (strip (src m)) ''.'' \<notin> words (preserve (conf self))"
    and "characters self fs cache = Inr (cs, cache')"
    and "strip_of (src m) ''[]'' \<notin> cs"
    and "linebreak_threshold (conf self) < int (length (src m))"
    and "\<not> startswith (dst m) (replace (replace (src m) ''{w}'' []) ''{p}'' '' / '')"
  shows "edit self fs cache text m preserve'
           = Inr (Some (replace text (full m)
                   (head m @ [dq] @ replace (replace (src m) ''{w}'' []) ''{p}'' '' / ''
                    @ [bs, CHR ''n''] @ dst m @ [dq])), cache')
         \<and> nl \<notin> set [bs, CHR ''n'']"
  using assms by (simp add: edit_def edit_side_by_side_def quoted_def nl_def bs_def)

theorem long_string_merge_witness:
  "edit example_self [] None (''    old '' @ [dq] @ ''long{p}string{w}'' @ [dq, nl] @ ''    new '' @ [dq] @ ''%translated'' @ [dq, nl])
     (TranslationMatch (''old '' @ [dq] @ ''long{p}string{w}'' @ [dq, nl] @ ''    new '' @ [dq] @ ''%translated'' @ [dq]) (''old '' @ [dq] @ ''long{p}string{w}'' @ [dq, nl] @ ''    new '') ''long{p}string{w}'' ''%translated'') False
     = Inr (Some (''    old '' @ [dq] @ ''long{p}string{w}'' @ [dq, nl] @ ''    new '' @ [dq] @ ''long / string'' @ [bs] @ ''n%%translated'' @ [dq, nl]), Some {})"
proof -
  let ?m = "TranslationMatch (''old '' @ [dq] @ ''long{p}string{w}'' @ [dq, nl] @ ''    new '' @ [dq] @ ''%translated'' @ [dq]) (''old '' @ [dq] @ ''long{p}string{w}'' @ [dq, nl] @ ''    new '') ''long{p}string{w}'' ''%translated''"
  have a: "\<not> False" by simp
  have b: "\<not> startswith (dst ?m) (src ?m)" by code_simp
  have c: "\<not> (startswith (src ?m) ''old:'' \<and> startswith (dst ?m) ''new:'')" by code_simp
  have d: "strip_of (strip (src ?m)) ''.'' \<notin> words (preserve (conf example_self))" by code_simp
  have e: "characters example_self [] None = Inr ({}, Some {})" by code_simp
  have f: "strip_of (src ?m) ''[]'' \<notin> {}" by simp
  have g: "linebreak_threshold (conf example_self) < int (length (src ?m))" by code_simp
  have h: "\<not> startswith (dst ?m) (replace (replace (src ?m) ''{w}'' []) ''{p}'' '' / '')"
    by code_simp
  have r: "replace (''    old '' @ [dq] @ ''long{p}string{w}'' @ [dq, nl] @ ''    new '' @ [dq] @ ''%translated'' @ [dq, nl]) (full ?m)
                   (head ?m @ [dq] @ replace (replace (src ?m) ''{w}'' []) ''{p}'' '' / ''
                    @ [bs, CHR ''n''] @ dst ?m @ [dq]) = ''    old '' @ [dq] @ ''long{p}string{w}'' @ [dq, nl] @ ''    new '' @ [dq] @ ''long / string'' @ [bs] @ ''n%%translated'' @ [dq, nl]"
    by code_simp
  show ?thesis
    using long_string_merge [OF a b c d e f g h, of "''    old '' @ [dq] @ ''long{p}string{w}'' @ [dq, nl] @ ''    new '' @ [dq] @ ''%translated'' @ [dq, nl]"] r by simp
qed

section \<open>Properties of the chunked reader\<close>





















section \<open>Properties of the run\<close>

lemma rfind_last: "c \<notin> set t \<Longrightarrow> rfind c (s @ c # t) = Some (length s)"
proof (induction s)
  case Nil
  have "rfind c t = None" using Nil by (induction t) auto
  then show ?case by simp
next
  case (Cons x s)
  then show ?case by simp
qed

lemma with_suffix_rpy:
  assumes "s \<noteq> []" and "name p = s @ ''.rpy''"
  shows "with_suffix p ''.rpyc'' = Inr (butlast p @ [s @ ''.rpyc''])"
proof -
  have "rfind CHR ''.'' (s @ CHR ''.'' # ''rpy'') = Some (length s)"
    by (rule rfind_last) simp
  then have "path_suffix p = ''.rpy''"
    using assms by (simp add: path_suffix_def)
  then show ?thesis
    using assms by (simp add: with_suffix_def)
qed

lemma rpy_reads:
  "rpy self fs cache p = Inr r \<Longrightarrow> \<exists>content. read_text fs p = Inr content"
  by (auto simp: rpy_def RpyReader_iter_def split: sum.splits if_splits)

lemma with_suffix_name:
  "with_suffix p suf = Inr q \<Longrightarrow> suf \<noteq> [] \<Longrightarrow> name q \<noteq> [] \<and> suffix suf (name q)"
  by (auto simp: with_suffix_def name_def suffix_def split: if_splits)

lemma sibling_differs:
  assumes "suffix ''.rpy'' (name p)" and "with_suffix p ''.rpyc'' = Inr pc"
  shows "pc \<noteq> p"
proof
  assume "pc = p"
  with assms(2) have "suffix ''.rpyc'' (name p)"
    using with_suffix_name [of p "''.rpyc''" pc] by simp
  then obtain a where a: "name p = a @ ''.rpyc''" by (auto simp: suffix_def)
  from assms(1) obtain b where b: "name p = b @ ''.rpy''" by (auto simp: suffix_def)
  from a have "last (name p) = CHR ''c''" by simp
  moreover from b have "last (name p) = CHR ''y''" by simp
  ultimately show False by simp
qed

text \<open>
  C9. Rewrite and cache frame condition: for every translation file whose rewrite
  succeeds, the file is overwritten if and only if its rewritten text differs from its
  current content. When it is overwritten, the file holds the rewritten text, the
  sibling with the compiled-script extension (for \<open>name.rpy\<close> that is \<open>name.rpyc\<close>) is
  absent afterwards and every other file is as before; when the rewritten text equals
  the current content, the file system is left exactly as it was.
\<close>

theorem rewrite_cache_frame:
  assumes "p \<in> set (rglob_rpy fs d)"
    and "rpy self fs cache p = Inr (text, cache')"
  shows "\<exists>content pc fs'.
           read_text fs p = Inr content
           \<and> with_suffix p ''.rpyc'' = Inr pc
           \<and> (\<forall>s. s \<noteq> [] \<and> name p = s @ ''.rpy'' \<longrightarrow> pc = butlast p @ [s @ ''.rpyc''])
           \<and> rewrite_file self p fs cache = (None, fs', cache')
           \<and> (text \<noteq> content \<longrightarrow>
                 map_of fs' p = Some text \<and> map_of fs' pc = None
                 \<and> (\<forall>q. q \<noteq> p \<and> q \<noteq> pc \<longrightarrow> map_of fs' q = map_of fs q))
           \<and> (text = content \<longrightarrow> fs' = fs)"
proof -
  from assms(1) have sf: "suffix ''.rpy'' (name p)"
    by (simp add: rglob_rpy_def)
  then have ne: "name p \<noteq> []" by (auto simp: suffix_def)
  from assms(2) obtain content where rd: "read_text fs p = Inr content"
    using rpy_reads by blast
  from ne obtain pc where pc: "with_suffix p ''.rpyc'' = Inr pc"
    by (simp add: with_suffix_def)
  have nm: "\<forall>s. s \<noteq> [] \<and> name p = s @ ''.rpy'' \<longrightarrow> pc = butlast p @ [s @ ''.rpyc'']"
    using with_suffix_rpy pc by auto
  have df: "pc \<noteq> p" using sf pc by (rule sibling_differs)
  show ?thesis
  proof (cases "text = content")
    case True
    then have "rewrite_file self p fs cache = (None, fs, cache')"
      using assms(2) rd by (simp add: rewrite_file_def)
    with rd pc nm True show ?thesis by blast
  next
    case False
    let ?fs' = "unlink (write_text fs p text) pc"
    have r: "rewrite_file self p fs cache = (None, ?fs', cache')"
      using False assms(2) rd pc by (simp add: rewrite_file_def)
    have m: "map_of ?fs' = ((map_of fs)(p \<mapsto> text))(pc := None)"
      by (simp add: unlink_def write_text_def delete_conv' update_conv')
    have "map_of ?fs' p = Some text \<and> map_of ?fs' pc = None
          \<and> (\<forall>q. q \<noteq> p \<and> q \<noteq> pc \<longrightarrow> map_of ?fs' q = map_of fs q)"
      unfolding m using df by simp
    with rd pc nm r False show ?thesis by blast
  qed
qed

theorem rewrite_cache_frame_witness:
  "\<exists>fs'. rewrite_file example_self [''project'', ''game'', ''tl'', ''korean'', ''scenario.rpy'']
          [([''project'', ''game'', ''tl'', ''korean'', ''scenario.rpy''], ''    old '' @ [dq] @ ''s1'' @ [dq, nl] @ ''    new '' @ [dq] @ ''s2'' @ [dq, nl]), ([''project'', ''game'', ''tl'', ''korean'', ''scenario.rpyc''], ''compiled''), ([''project'', ''game'', ''tl'', ''korean'', ''other.rpyc''], ''compiled'')] None
        = (None, fs', Some {})
      \<and> map_of fs' [''project'', ''game'', ''tl'', ''korean'', ''scenario.rpy''] = Some (''    old '' @ [dq] @ ''s1'' @ [dq, nl] @ ''    new '' @ [dq] @ ''s1  |  s2'' @ [dq, nl])
      \<and> map_of fs' [''project'', ''game'', ''tl'', ''korean'', ''scenario.rpyc''] = None
      \<and> map_of fs' [''project'', ''game'', ''tl'', ''korean'', ''other.rpyc''] = Some ''compiled''"
proof -
  let ?p = "[''project'', ''game'', ''tl'', ''korean'', ''scenario.rpy'']"
  let ?fs = "[(?p, ''    old '' @ [dq] @ ''s1'' @ [dq, nl] @ ''    new '' @ [dq] @ ''s2'' @ [dq, nl]), ([''project'', ''game'', ''tl'', ''korean'', ''scenario.rpyc''], ''compiled''), ([''project'', ''game'', ''tl'', ''korean'', ''other.rpyc''], ''compiled'')]"
  let ?text = "''    old '' @ [dq] @ ''s1'' @ [dq, nl] @ ''    new '' @ [dq] @ ''s1  |  s2'' @ [dq, nl]"
  have a: "?p \<in> set (rglob_rpy ?fs [''project'', ''game'', ''tl'', ''korean''])" by code_simp
  have b: "rpy example_self ?fs None ?p = Inr (?text, Some {})" by code_simp
  from rewrite_cache_frame [OF a b] obtain content pc fs' where
    rd: "read_text ?fs ?p = Inr content"
    and nm: "\<forall>s. s \<noteq> [] \<and> name ?p = s @ ''.rpy'' \<longrightarrow> pc = butlast ?p @ [s @ ''.rpyc'']"
    and rw: "rewrite_file example_self ?p ?fs None = (None, fs', Some {})"
    and ch: "?text \<noteq> content \<longrightarrow>
                 map_of fs' ?p = Some ?text \<and> map_of fs' pc = None
                 \<and> (\<forall>q. q \<noteq> ?p \<and> q \<noteq> pc \<longrightarrow> map_of fs' q = map_of ?fs q)"
    by blast
  have "read_text ?fs ?p = Inr (''    old '' @ [dq] @ ''s1'' @ [dq, nl] @ ''    new '' @ [dq] @ ''s2'' @ [dq, nl])" by code_simp
  with rd have content: "content = ''    old '' @ [dq] @ ''s1'' @ [dq, nl] @ ''    new '' @ [dq] @ ''s2'' @ [dq, nl]" by simp
  have "name ?p = ''scenario'' @ ''.rpy''" by code_simp
  with nm have pc: "pc = [''project'', ''game'', ''tl'', ''korean'', ''scenario.rpyc'']" by simp
  have "?text \<noteq> content" unfolding content by simp
  with ch have m: "map_of fs' ?p = Some ?text \<and> map_of fs' pc = None
                 \<and> (\<forall>q. q \<noteq> ?p \<and> q \<noteq> pc \<longrightarrow> map_of fs' q = map_of ?fs q)"
    by blast
  then have "map_of fs' [''project'', ''game'', ''tl'', ''korean'', ''other.rpyc''] = map_of ?fs [''project'', ''game'', ''tl'', ''korean'', ''other.rpyc'']"
    unfolding pc by simp
  then have "map_of fs' [''project'', ''game'', ''tl'', ''korean'', ''other.rpyc''] = Some ''compiled''" by simp
  with rw m pc show ?thesis by blast
qed








text \<open>
  C1. Idempotence of the rewrite: the code does not have the property. The source of the
  entry holds a single percent sign. The first run merges source and translation; on the
  second run the translation read back from the file is normalised to \<open>5%% a  |  x\<close>,
  which no longer starts with the source \<open>5% a\<close>, so the no-op guard does not hold and
  the entry is merged once more.
\<close>

theorem second_run_rewrites_again:
  "call (\<lambda>files. ''zip'') example_self [([''project'', ''game'', ''tl'', ''korean'', ''scenario.rpy''], ''    old '' @ [dq] @ ''5% a'' @ [dq, nl] @ ''    new '' @ [dq] @ ''x'' @ [dq, nl])]
     = (None, [([''project'', ''game'', ''tl'', ''korean'', ''scenario.rpy''], ''    old '' @ [dq] @ ''5% a'' @ [dq, nl] @ ''    new '' @ [dq] @ ''5% a  |  x'' @ [dq, nl]), ([''project'', ''game'', ''tl'', ''koreanBackup.zip''], ''zip''), ([''project'', ''game'', ''__dev_mode.rpy''], ''init 9999 python:'')])
   \<and> call (\<lambda>files. ''zip'') example_self
         [([''project'', ''game'', ''tl'', ''korean'', ''scenario.rpy''], ''    old '' @ [dq] @ ''5% a'' @ [dq, nl] @ ''    new '' @ [dq] @ ''5% a  |  x'' @ [dq, nl]), ([''project'', ''game'', ''tl'', ''koreanBackup.zip''], ''zip''), ([''project'', ''game'', ''__dev_mode.rpy''], ''init 9999 python:'')]
     = (None, [([''project'', ''game'', ''tl'', ''korean'', ''scenario.rpy''], ''    old '' @ [dq] @ ''5% a'' @ [dq, nl] @ ''    new '' @ [dq] @ ''5% a  |  5%% a  |  x'' @ [dq, nl]), ([''project'', ''game'', ''tl'', ''koreanBackup.zip''], ''zip''), ([''project'', ''game'', ''__dev_mode.rpy''], ''init 9999 python:'')])
   \<and> rpy example_self [([''project'', ''game'', ''tl'', ''korean'', ''scenario.rpy''], ''    old '' @ [dq] @ ''5% a'' @ [dq, nl] @ ''    new '' @ [dq] @ ''x'' @ [dq, nl])] None [''project'', ''game'', ''tl'', ''korean'', ''scenario.rpy''] = Inr (''    old '' @ [dq] @ ''5% a'' @ [dq, nl] @ ''    new '' @ [dq] @ ''5% a  |  x'' @ [dq, nl], Some {})
   \<and> rpy example_self [([''project'', ''game'', ''tl'', ''korean'', ''scenario.rpy''], ''    old '' @ [dq] @ ''5% a'' @ [dq, nl] @ ''    new '' @ [dq] @ ''5% a  |  x'' @ [dq, nl])] None [''project'', ''game'', ''tl'', ''korean'', ''scenario.rpy''] = Inr (''    old '' @ [dq] @ ''5% a'' @ [dq, nl] @ ''    new '' @ [dq] @ ''5% a  |  5%% a  |  x'' @ [dq, nl], Some {})
   \<and> ''    old '' @ [dq] @ ''5% a'' @ [dq, nl] @ ''    new '' @ [dq] @ ''5% a  |  5%% a  |  x'' @ [dq, nl] \<noteq> ''    old '' @ [dq] @ ''5% a'' @ [dq, nl] @ ''    new '' @ [dq] @ ''5% a  |  x'' @ [dq, nl]"
  by code_simp

end
